theory Spec2Isabelle
  imports Main "HOL-Library.Word"
begin

unbundle bit_operations_syntax

section \<open>Solidity values and packed encoding\<close>

text \<open>
  The contract \<open>XcertToken\<close> (xcert.sol) works on 160-bit addresses, 256-bit unsigned
  integers, 32-byte words and byte strings. \<open>abi.encodePacked\<close> writes an address as
  20 bytes, a \<open>bool\<close> as one byte, a \<open>uint256\<close> and a \<open>bytes32\<close> as 32 bytes (all big
  endian, no padding between the arguments) and a string literal as its bytes.
\<close>

type_synonym address = "160 word"
type_synonym uint256 = "256 word"
type_synonym bytes32 = "256 word"
type_synonym uint8 = "8 word"
type_synonym bytes = "8 word list"

fun be_bytes :: "nat \<Rightarrow> nat \<Rightarrow> bytes" where
  "be_bytes 0 x = []"
| "be_bytes (Suc n) x = be_bytes n (x div 256) @ [of_nat (x mod 256)]"

datatype abi_value =
    Address address
  | Bool bool
  | Uint256 uint256
  | Bytes32 bytes32
  | StringLit bytes

fun packed :: "abi_value \<Rightarrow> bytes" where
  "packed (Address a) = be_bytes 20 (unat a)"
| "packed (Bool b) = [if b then 1 else 0]"
| "packed (Uint256 x) = be_bytes 32 (unat x)"
| "packed (Bytes32 x) = be_bytes 32 (unat x)"
| "packed (StringLit bs) = bs"

definition encodePacked :: "abi_value list \<Rightarrow> bytes" where
  "encodePacked vs = concat (map packed vs)"

definition ascii :: "string \<Rightarrow> bytes" where
  "ascii cs = map of_char cs"

text \<open>
  \<open>keccak256\<close> and \<open>ecrecover\<close> are primitives of the EVM, not code of the contract: the
  model takes them as parameters.
\<close>

record evm =
  keccak256 :: "bytes \<Rightarrow> bytes32"
  ecrecover :: "bytes32 \<Rightarrow> uint8 \<Rightarrow> bytes32 \<Rightarrow> bytes32 \<Rightarrow> address"

section \<open>Xcert: claims and signatures\<close>

text \<open>Error constants of xcert.sol used by the claim operations.\<close>

datatype error =
    INVALID_SIGNATURE
  | INVALID_SIGNATURE_KIND
  | CLAIM_PERFORMED
  | CLAIM_EXPIRED
  | CLAIM_CANCELED
  | NOT_OWNER
  | EXTERNAL_CALL_REVERTED
  | ARGUMENT_DECODING_REVERTED

text \<open>
  \<open>enum SignatureKind { eth_sign, trezor, no_prefix }\<close> and \<open>struct SignatureData\<close>.
  Inside the contract a kind is one of the three members.
\<close>

datatype SignatureKind = eth_sign | trezor | no_prefix

record SignatureData =
  sig_r :: bytes32
  sig_s :: bytes32
  sig_v :: uint8
  sig_kind :: SignatureKind

text \<open>
  In the arguments of a call a kind travels as a \<open>uint8\<close>, with 0, 1 and 2 for the members
  in the order of their declaration. The argument decoder that Solidity 0.8.6 generates
  checks an enum value before the function body sees it: a value that is no member makes
  the call revert, with empty revert data.
\<close>

definition abi_decode_SignatureKind :: "uint8 \<Rightarrow> SignatureKind option" where
  "abi_decode_SignatureKind k =
   (if k = 0 then Some eth_sign
    else if k = 1 then Some trezor
    else if k = 2 then Some no_prefix
    else None)"

text \<open>The two string literals of \<open>isValidSignature\<close>:
  \<^verbatim>\<open>"\x19Ethereum Signed Message:\n32"\<close> and \<^verbatim>\<open>"\x19Ethereum Signed Message:\n\x20"\<close>.\<close>

definition eth_sign_prefix :: bytes where
  "eth_sign_prefix = [0x19] @ ascii ''Ethereum Signed Message:'' @ [0x0A] @ ascii ''32''"

definition trezor_prefix :: bytes where
  "trezor_prefix = [0x19] @ ascii ''Ethereum Signed Message:'' @ [0x0A, 0x20]"

definition generateClaim ::
  "evm \<Rightarrow> address \<Rightarrow> address \<Rightarrow> address \<Rightarrow> bool \<Rightarrow> address \<Rightarrow> uint256 \<Rightarrow> address \<Rightarrow>
   uint256 \<Rightarrow> uint256 \<Rightarrow> bytes32" where
  "generateClaim vm address_this owner operator approved feeToken feeValue feeRecipient
     seed expiration =
   keccak256 vm
     (encodePacked
       [Address address_this,
        Address owner,
        Address operator,
        Bool approved,
        Address feeToken,
        Uint256 feeValue,
        Address feeRecipient,
        Uint256 seed,
        Uint256 expiration])"

definition isValidSignature :: "evm \<Rightarrow> address \<Rightarrow> bytes32 \<Rightarrow> SignatureData \<Rightarrow> error + bool" where
  "isValidSignature vm signer claim sg =
   (if sig_kind sg = eth_sign then
      Inr (signer = ecrecover vm
             (keccak256 vm (encodePacked [StringLit eth_sign_prefix, Bytes32 claim]))
             (sig_v sg) (sig_r sg) (sig_s sg))
    else if sig_kind sg = trezor then
      Inr (signer = ecrecover vm
             (keccak256 vm (encodePacked [StringLit trezor_prefix, Bytes32 claim]))
             (sig_v sg) (sig_r sg) (sig_s sg))
    else if sig_kind sg = no_prefix then
      Inr (signer = ecrecover vm claim (sig_v sg) (sig_r sg) (sig_s sg))
    else Inl INVALID_SIGNATURE_KIND)"

text \<open>
  \<open>isValidSignature\<close> is \<open>public\<close>: called from outside, its third argument is decoded
  from the four words \<open>r\<close>, \<open>s\<close>, \<open>v\<close>, \<open>kind\<close> of the call data before the body runs.
\<close>

definition call_isValidSignature ::
  "evm \<Rightarrow> address \<Rightarrow> bytes32 \<Rightarrow> bytes32 \<Rightarrow> bytes32 \<Rightarrow> uint8 \<Rightarrow> uint8 \<Rightarrow> error + bool" where
  "call_isValidSignature vm signer claim r s v k =
   (case abi_decode_SignatureKind k of
      None \<Rightarrow> Inl ARGUMENT_DECODING_REVERTED
    | Some kind \<Rightarrow>
        isValidSignature vm signer claim \<lparr>sig_r = r, sig_s = s, sig_v = v, sig_kind = kind\<rparr>)"

section \<open>Xcert: storage and the two claim operations\<close>

datatype event = ApprovalForAll address address bool

record xcert_state =
  claimPerformed :: "bytes32 \<Rightarrow> bool"
  claimCancelled :: "bytes32 \<Rightarrow> bool"
  ownerToOperators :: "address \<Rightarrow> address \<Rightarrow> bool"
  events :: "event list"

text \<open>
  What a call sees of its surroundings: the contract's own address, \<open>msg.sender\<close>,
  \<open>block.timestamp\<close>, and whether the external call
  \<open>ERC20(_feeToken).transferFrom(_owner, _feeRecipient, _feeValue)\<close> returns (\<open>True\<close>) or
  reverts (\<open>False\<close>); the boolean that \<open>transferFrom\<close> returns is ignored by the contract.
  The fee token is another contract: its balances are not part of this storage, and it is
  taken not to call back into this contract while the transfer runs.
\<close>

record call_ctx =
  address_this :: address
  msg_sender :: address
  block_timestamp :: uint256
  transferFrom_returns :: "address \<Rightarrow> address \<Rightarrow> address \<Rightarrow> uint256 \<Rightarrow> bool"

text \<open>
  A function body is run statement by statement: it returns \<open>None\<close> and the storage it
  wrote, or the error of the \<open>require\<close> that stopped it together with the storage as it was
  at that moment. \<open>transact\<close> is the EVM's rule for an external call: a revert discards
  every write of the call.
\<close>

type_synonym outcome = "error option \<times> xcert_state"

definition transact :: "(xcert_state \<Rightarrow> outcome) \<Rightarrow> xcert_state \<Rightarrow> outcome" where
  "transact body st =
   (case body st of
      (None, st') \<Rightarrow> (None, st')
    | (Some e, _) \<Rightarrow> (Some e, st))"

text \<open>
  The two operations take their arguments as the contract sees them, the signature as the
  decoded struct: a call whose kind is no member of the enum is refused by the argument
  decoder and writes nothing.
\<close>

definition setApprovalForAllWithSignature ::
  "evm \<Rightarrow> call_ctx \<Rightarrow> address \<Rightarrow> address \<Rightarrow> bool \<Rightarrow> address \<Rightarrow> uint256 \<Rightarrow> address \<Rightarrow>
   uint256 \<Rightarrow> uint256 \<Rightarrow> SignatureData \<Rightarrow> xcert_state \<Rightarrow> outcome" where
  "setApprovalForAllWithSignature vm ctx owner operator approved feeToken feeValue
     feeRecipient seed expiration signature st =
   (let claim = generateClaim vm (address_this ctx) owner operator approved feeToken
                  feeValue feeRecipient seed expiration
    in
    if claimCancelled st claim then (Some CLAIM_CANCELED, st)
    else
      (case isValidSignature vm owner claim signature of
         Inl e \<Rightarrow> (Some e, st)
       | Inr False \<Rightarrow> (Some INVALID_SIGNATURE, st)
       | Inr True \<Rightarrow>
           if claimPerformed st claim then (Some CLAIM_PERFORMED, st)
           else if \<not> (expiration \<ge> block_timestamp ctx) then (Some CLAIM_EXPIRED, st)
           else
             (let st1 = st\<lparr>claimPerformed := (claimPerformed st)(claim := True)\<rparr>;
                  st2 = st1\<lparr>ownerToOperators :=
                          (ownerToOperators st1)
                            (owner := (ownerToOperators st1 owner)(operator := approved))\<rparr>;
                  feeRecipient' = (if feeRecipient = 0 then msg_sender ctx else feeRecipient)
              in
              if \<not> transferFrom_returns ctx feeToken owner feeRecipient' feeValue
              then (Some EXTERNAL_CALL_REVERTED, st2)
              else (None, st2\<lparr>events := events st2 @ [ApprovalForAll owner operator approved]\<rparr>))))"

definition cancelSetApprovalForAllWithSignature ::
  "evm \<Rightarrow> call_ctx \<Rightarrow> address \<Rightarrow> address \<Rightarrow> bool \<Rightarrow> address \<Rightarrow> uint256 \<Rightarrow> address \<Rightarrow>
   uint256 \<Rightarrow> uint256 \<Rightarrow> xcert_state \<Rightarrow> outcome" where
  "cancelSetApprovalForAllWithSignature vm ctx owner operator approved feeToken feeValue
     feeRecipient seed expiration st =
   (if \<not> (msg_sender ctx = owner) then (Some NOT_OWNER, st)
    else
      (let claim = generateClaim vm (address_this ctx) owner operator approved feeToken
                     feeValue feeRecipient seed expiration
       in
       if claimPerformed st claim then (Some CLAIM_PERFORMED, st)
       else (None, st\<lparr>claimCancelled := (claimCancelled st)(claim := True)\<rparr>)))"


subsection \<open>A small test deployment\<close>

text \<open>
  Concrete values on which the operations are run: a stand-in hash, a stand-in recovery that
  reads the signer out of \<open>r\<close>, the storage of a freshly deployed contract (every mapping
  \<open>false\<close>), and a call context whose fee transfer always returns.
\<close>

definition stub_keccak256 :: "bytes \<Rightarrow> bytes32" where
  "stub_keccak256 bs = foldl (\<lambda>h b. 257 * h + ucast b + 1) 0 bs"

definition stub_ecrecover :: "bytes32 \<Rightarrow> uint8 \<Rightarrow> bytes32 \<Rightarrow> bytes32 \<Rightarrow> address" where
  "stub_ecrecover h v r s = ucast r"

definition stub_evm :: evm where
  "stub_evm = \<lparr>keccak256 = stub_keccak256, ecrecover = stub_ecrecover\<rparr>"

definition signed_by :: "address \<Rightarrow> SignatureKind \<Rightarrow> SignatureData" where
  "signed_by a k = \<lparr>sig_r = ucast a, sig_s = 0, sig_v = 27, sig_kind = k\<rparr>"

text \<open>A second stand-in recovery, which reads the signer out of the hash it is given.\<close>

definition hash_ecrecover :: "bytes32 \<Rightarrow> uint8 \<Rightarrow> bytes32 \<Rightarrow> bytes32 \<Rightarrow> address" where
  "hash_ecrecover h v r s = ucast h"

definition hash_evm :: evm where
  "hash_evm = \<lparr>keccak256 = stub_keccak256, ecrecover = hash_ecrecover\<rparr>"

definition deployed_state :: xcert_state where
  "deployed_state =
   \<lparr>claimPerformed = (\<lambda>_. False), claimCancelled = (\<lambda>_. False),
    ownerToOperators = (\<lambda>_ _. False), events = []\<rparr>"

definition stub_ctx :: "address \<Rightarrow> uint256 \<Rightarrow> call_ctx" where
  "stub_ctx sender now =
   \<lparr>address_this = 0xC0, msg_sender = sender, block_timestamp = now,
    transferFrom_returns = (\<lambda>_ _ _ _. True)\<rparr>"

section \<open>AssetLedger (TypeScript client)\<close>

text \<open>The ability enums of the scaffold package, with their numeric values.\<close>

datatype SuperAssetLedgerAbility = MANAGE_ABILITIES | ALLOW_MANAGE_ABILITIES

datatype GeneralAssetLedgerAbility =
    CREATE_ASSET
  | REVOKE_ASSET
  | TOGGLE_TRANSFERS
  | UPDATE_ASSET
  | UPDATE_URI_BASE
  | ALLOW_CREATE_ASSET
  | ALLOW_UPDATE_ASSET_IMPRINT

datatype AssetLedgerAbility = Super SuperAssetLedgerAbility | General GeneralAssetLedgerAbility

fun super_value :: "SuperAssetLedgerAbility \<Rightarrow> nat" where
  "super_value MANAGE_ABILITIES = 1"
| "super_value ALLOW_MANAGE_ABILITIES = 2"

fun general_value :: "GeneralAssetLedgerAbility \<Rightarrow> nat" where
  "general_value CREATE_ASSET = 16"
| "general_value REVOKE_ASSET = 32"
| "general_value TOGGLE_TRANSFERS = 64"
| "general_value UPDATE_ASSET = 128"
| "general_value UPDATE_URI_BASE = 256"
| "general_value ALLOW_CREATE_ASSET = 512"
| "general_value ALLOW_UPDATE_ASSET_IMPRINT = 1024"

fun ability_value :: "AssetLedgerAbility \<Rightarrow> nat" where
  "ability_value (Super a) = super_value a"
| "ability_value (General a) = general_value a"

text \<open>
  \<open>let bitAbilities = bigNumberify(0); abilities.forEach((ability) => { bitAbilities =
  bitAbilities.add(ability); });\<close> The big number is a natural number, \<open>add\<close> is addition.
\<close>

fun add_abilities :: "nat \<Rightarrow> AssetLedgerAbility list \<Rightarrow> nat" where
  "add_abilities bitAbilities [] = bitAbilities"
| "add_abilities bitAbilities (ability # rest) =
     add_abilities (bitAbilities + ability_value ability) rest"

text \<open>\<open>toHexString\<close> belongs to the big-number library and is a parameter.\<close>

definition getBitfieldFromAbilities :: "(nat \<Rightarrow> string) \<Rightarrow> AssetLedgerAbility list \<Rightarrow> string" where
  "getBitfieldFromAbilities toHexString abilities = toHexString (add_abilities 0 abilities)"

text \<open>\<open>Array.prototype.indexOf\<close>: the first index of the element, or \<open>-1\<close>.\<close>

fun indexOf_from :: "nat \<Rightarrow> 'a list \<Rightarrow> 'a \<Rightarrow> int" where
  "indexOf_from i [] x = -1"
| "indexOf_from i (y # ys) x = (if y = x then int i else indexOf_from (Suc i) ys x)"

definition indexOf :: "'a list \<Rightarrow> 'a \<Rightarrow> int" where
  "indexOf xs x = indexOf_from 0 xs x"

text \<open>
  The provider gives the caller's account and the encoder's \<open>normalizeAddress\<close> (a library
  function, here a parameter; its argument may be \<open>undefined\<close>). An account argument is
  either a string or a gateway object answering \<open>getProxyAccountId\<close>.
\<close>

record GenericProvider =
  accountId :: string
  normalizeAddress :: "string option \<Rightarrow> string option"

record AssetLedger =
  ledger_id :: string
  provider :: GenericProvider

datatype AccountOrGateway = AccountString string | GatewayBase "nat \<Rightarrow> string"

text \<open>
  The mutation functions (\<open>../mutations/*\<close>) send the transaction; what the ledger's methods
  decide is the arguments they pass, which is what the model returns.
\<close>

record grantAbilities_call =
  gr_accountId :: "string option"
  gr_bitAbilities :: nat

record revokeAbilities_call =
  rv_accountId :: "string option"
  rv_bitAbilities :: nat
  rv_allowSuperRevoke :: bool

record createAsset_call =
  ca_receiverId :: "string option"
  ca_id :: string
  ca_imprint :: string

record AssetLedgerItemRecipe =
  recipe_receiverId :: "string option"
  recipe_imprint :: "string option"
  recipe_id :: string

definition grantAbilities ::
  "AssetLedger \<Rightarrow> AccountOrGateway \<Rightarrow> AssetLedgerAbility list \<Rightarrow> grantAbilities_call" where
  "grantAbilities ledger account abilities =
   (let accountId1 = (case account of
                        AccountString a \<Rightarrow> a
                      | GatewayBase getProxyAccountId \<Rightarrow> getProxyAccountId 0);
        accountId2 = normalizeAddress (provider ledger) (Some accountId1);
        bitAbilities = add_abilities 0 abilities
    in \<lparr>gr_accountId = accountId2, gr_bitAbilities = bitAbilities\<rparr>)"

definition revokeAbilities ::
  "AssetLedger \<Rightarrow> AccountOrGateway \<Rightarrow> AssetLedgerAbility list \<Rightarrow> revokeAbilities_call" where
  "revokeAbilities ledger account abilities =
   (let accountId1 = (case account of
                        AccountString a \<Rightarrow> a
                      | GatewayBase getProxyAccountId \<Rightarrow> getProxyAccountId 0);
        allowSuperRevoke = (if indexOf abilities (Super MANAGE_ABILITIES) \<noteq> -1 then True else False);
        accountId2 = normalizeAddress (provider ledger) (Some accountId1);
        bitAbilities = add_abilities 0 abilities
    in \<lparr>rv_accountId = accountId2, rv_bitAbilities = bitAbilities,
        rv_allowSuperRevoke = allowSuperRevoke\<rparr>)"

text \<open>JavaScript's \<open>a || b\<close> on an optional string: \<open>undefined\<close> and \<open>''\<close> are falsy.\<close>

fun js_or :: "string option \<Rightarrow> string \<Rightarrow> string" where
  "js_or None d = d"
| "js_or (Some a) d = (if a = [] then d else a)"

definition default_imprint :: string where
  "default_imprint = ''e3b0c44298fc1c149afbf4c8996fb92427ae41e4649b934ca495991b7852b855''"

definition createAsset :: "AssetLedger \<Rightarrow> AssetLedgerItemRecipe \<Rightarrow> createAsset_call" where
  "createAsset ledger recipe =
   (let imprint = js_or (recipe_imprint recipe) default_imprint;
        receiverId = normalizeAddress (provider ledger) (recipe_receiverId recipe)
    in \<lparr>ca_receiverId = receiverId, ca_id = recipe_id recipe, ca_imprint = ''0x'' @ imprint\<rparr>)"

text \<open>
  Modelled from the spec: the membership test on a bitmask, which lives in the
  \<open>Abilitable\<close> contract and the \<open>getAbilities\<close> query, neither of which is among the
  sources: \<open>hasAbility(mask, bit) == (mask & bit) != 0\<close>.
\<close>

definition hasAbility :: "nat \<Rightarrow> nat \<Rightarrow> bool" where
  "hasAbility bitmask b = (bitmask AND b \<noteq> 0)"

definition stub_ledger :: "string \<Rightarrow> AssetLedger" where
  "stub_ledger caller =
   \<lparr>ledger_id = ''0xledger'',
    provider = \<lparr>accountId = caller, normalizeAddress = (\<lambda>a. a)\<rparr>\<rparr>"


section \<open>The specification's wording\<close>

text \<open>
  The field list of an approval-style claim as the specification gives it,
  \<open>[dispatcherId, ownerId, operatorId, approvedFlag, feeTokenId, feeValue, feeRecipientId,
  seed, expirationTimestamp]\<close>, written out byte by byte, and the digest as the hash of
  that sequence.
\<close>

record approval_claim =
  dispatcherId :: address
  ownerId :: address
  operatorId :: address
  approvedFlag :: bool
  feeTokenId :: address
  feeValue :: uint256
  feeRecipientId :: address
  seed :: uint256
  expirationTimestamp :: uint256

definition packed_fields :: "approval_claim \<Rightarrow> bytes" where
  "packed_fields c =
     be_bytes 20 (unat (dispatcherId c)) @
     be_bytes 20 (unat (ownerId c)) @
     be_bytes 20 (unat (operatorId c)) @
     [if approvedFlag c then 1 else 0] @
     be_bytes 20 (unat (feeTokenId c)) @
     be_bytes 32 (unat (feeValue c)) @
     be_bytes 20 (unat (feeRecipientId c)) @
     be_bytes 32 (unat (seed c)) @
     be_bytes 32 (unat (expirationTimestamp c))"

definition claim_digest :: "evm \<Rightarrow> approval_claim \<Rightarrow> bytes32" where
  "claim_digest vm c = keccak256 vm (packed_fields c)"

text \<open>
  What the specification says recovery operates on: the digest itself for the raw kind, a
  re-hash of a fixed prefix followed by the digest for the two prefixed kinds.
\<close>

definition signed_message :: "evm \<Rightarrow> SignatureKind \<Rightarrow> bytes32 \<Rightarrow> bytes32" where
  "signed_message vm k digest =
   (case k of
      no_prefix \<Rightarrow> digest
    | eth_sign \<Rightarrow> keccak256 vm (eth_sign_prefix @ be_bytes 32 (unat digest))
    | trezor \<Rightarrow> keccak256 vm (trezor_prefix @ be_bytes 32 (unat digest)))"

text \<open>Reading a byte string as a big-endian number.\<close>

definition be_nat :: "bytes \<Rightarrow> nat" where
  "be_nat bs = foldl (\<lambda>a b. 256 * a + unat b) 0 bs"

text \<open>The bitwise OR of the listed ability values.\<close>

definition or_abilities :: "AssetLedgerAbility list \<Rightarrow> nat" where
  "or_abilities abilities = fold (\<lambda>ability m. m OR ability_value ability) abilities 0"

section \<open>Redeeming and cancelling a claim\<close>

lemma isValidSignature_error:
  "isValidSignature vm signer claim sg = Inl e \<Longrightarrow> e = INVALID_SIGNATURE_KIND"
  by (auto simp add: isValidSignature_def split: if_splits)

lemma transact_failure:
  "fst (transact body st) \<noteq> None \<Longrightarrow> snd (transact body st) = st"
  by (auto simp add: transact_def split: prod.splits option.splits)

lemma perform_cancelled:
  "claimCancelled st (generateClaim vm (address_this ctx) ow op ap ft fv fr sd ex) \<Longrightarrow>
   setApprovalForAllWithSignature vm ctx ow op ap ft fv fr sd ex sg st = (Some CLAIM_CANCELED, st)"
  by (simp add: setApprovalForAllWithSignature_def)

text \<open>The four checks in the order the body makes them; none of them writes.\<close>

lemma perform_verification_order:
  "\<not> (ex \<ge> block_timestamp ctx)
     \<or> claimPerformed st (generateClaim vm (address_this ctx) ow op ap ft fv fr sd ex)
     \<or> claimCancelled st (generateClaim vm (address_this ctx) ow op ap ft fv fr sd ex)
     \<or> isValidSignature vm ow (generateClaim vm (address_this ctx) ow op ap ft fv fr sd ex) sg
         \<noteq> Inr True \<Longrightarrow>
   setApprovalForAllWithSignature vm ctx ow op ap ft fv fr sd ex sg st =
   (Some (let claim = generateClaim vm (address_this ctx) ow op ap ft fv fr sd ex in
      if claimCancelled st claim then CLAIM_CANCELED
      else case isValidSignature vm ow claim sg of
             Inl e \<Rightarrow> e
           | Inr False \<Rightarrow> INVALID_SIGNATURE
           | Inr True \<Rightarrow> if claimPerformed st claim then CLAIM_PERFORMED else CLAIM_EXPIRED), st)"
  by (auto simp add: setApprovalForAllWithSignature_def Let_def split: sum.splits bool.splits)

lemma perform_success_iff:
  "fst (setApprovalForAllWithSignature vm ctx ow op ap ft fv fr sd ex sg st) = None \<longleftrightarrow>
   (let claim = generateClaim vm (address_this ctx) ow op ap ft fv fr sd ex in
    \<not> claimCancelled st claim \<and> isValidSignature vm ow claim sg = Inr True \<and>
    \<not> claimPerformed st claim \<and> ex \<ge> block_timestamp ctx \<and>
    transferFrom_returns ctx ft ow (if fr = 0 then msg_sender ctx else fr) fv)"
  by (auto simp add: setApprovalForAllWithSignature_def Let_def split: sum.splits bool.splits)

lemma perform_success_state:
  "setApprovalForAllWithSignature vm ctx ow op ap ft fv fr sd ex sg st = (None, st1) \<Longrightarrow>
   st1 = st\<lparr>claimPerformed :=
            (claimPerformed st)(generateClaim vm (address_this ctx) ow op ap ft fv fr sd ex := True),
          ownerToOperators := (ownerToOperators st)(ow := (ownerToOperators st ow)(op := ap)),
          events := events st @ [ApprovalForAll ow op ap]\<rparr>"
  by (auto simp add: setApprovalForAllWithSignature_def Let_def
      split: sum.splits bool.splits if_splits)

lemma perform_on_performed:
  "claimPerformed st (generateClaim vm (address_this ctx) ow op ap ft fv fr sd ex) \<Longrightarrow>
   \<not> claimCancelled st (generateClaim vm (address_this ctx) ow op ap ft fv fr sd ex) \<Longrightarrow>
   setApprovalForAllWithSignature vm ctx ow op ap ft fv fr sd ex sg st =
   (Some (case isValidSignature vm ow
                 (generateClaim vm (address_this ctx) ow op ap ft fv fr sd ex) sg of
            Inl e \<Rightarrow> e | Inr False \<Rightarrow> INVALID_SIGNATURE | Inr True \<Rightarrow> CLAIM_PERFORMED), st)"
  by (auto simp add: setApprovalForAllWithSignature_def Let_def split: sum.splits bool.splits)

lemma cancel_not_owner:
  "msg_sender ctx \<noteq> ow \<Longrightarrow>
   cancelSetApprovalForAllWithSignature vm ctx ow op ap ft fv fr sd ex st = (Some NOT_OWNER, st)"
  by (simp add: cancelSetApprovalForAllWithSignature_def)

lemma cancel_on_performed:
  "claimPerformed st (generateClaim vm (address_this ctx) ow op ap ft fv fr sd ex) \<Longrightarrow>
   cancelSetApprovalForAllWithSignature vm ctx ow op ap ft fv fr sd ex st =
   (Some (if msg_sender ctx = ow then CLAIM_PERFORMED else NOT_OWNER), st)"
  by (simp add: cancelSetApprovalForAllWithSignature_def)

lemma cancel_success_iff:
  "fst (cancelSetApprovalForAllWithSignature vm ctx ow op ap ft fv fr sd ex st) = None \<longleftrightarrow>
   msg_sender ctx = ow \<and>
   \<not> claimPerformed st (generateClaim vm (address_this ctx) ow op ap ft fv fr sd ex)"
  by (simp add: cancelSetApprovalForAllWithSignature_def Let_def)

lemma cancel_success_state:
  "cancelSetApprovalForAllWithSignature vm ctx ow op ap ft fv fr sd ex st = (None, st1) \<Longrightarrow>
   st1 = st\<lparr>claimCancelled :=
            (claimCancelled st)(generateClaim vm (address_this ctx) ow op ap ft fv fr sd ex := True)\<rparr>"
  by (auto simp add: cancelSetApprovalForAllWithSignature_def Let_def split: if_splits)

text \<open>Evaluation rules for the test deployment.\<close>

lemmas stub_defs =
  isValidSignature_def stub_ctx_def stub_evm_def stub_ecrecover_def deployed_state_def
  signed_by_def

subsection \<open>Expired claims\<close>

text \<open>
  C1, as stated: a claim whose expiration lies before the current time fails with
  \<open>CLAIM_EXPIRED\<close> whatever the signature, the expiration being checked first. On the
  code this fails: the body checks cancellation, then the signature, then whether the claim
  was performed, and the expiration last. An expired claim carrying a signature that does
  not recover the owner is refused with \<open>INVALID_SIGNATURE\<close>.
\<close>

theorem expired_claim_invalid_signature_counterexample:
  "(5::uint256) < block_timestamp (stub_ctx 1 10) \<and>
   fst (setApprovalForAllWithSignature stub_evm (stub_ctx 1 10) 2 3 True 4 0 0 1 5
          (signed_by 7 no_prefix) deployed_state) = Some INVALID_SIGNATURE \<and>
   fst (setApprovalForAllWithSignature stub_evm (stub_ctx 1 10) 2 3 True 4 0 0 1 5
          (signed_by 7 no_prefix) deployed_state) \<noteq> Some CLAIM_EXPIRED"
  by (simp add: setApprovalForAllWithSignature_def stub_defs)

text \<open>
  C1, amended: a claim whose expiration lies before the current time always fails and
  nothing is written. The error is that of the first failing check in the order
  cancelled, signature, performed, expired: it is \<open>CLAIM_EXPIRED\<close> exactly when the
  claim is not cancelled, the signature is valid and the claim is not yet performed.
\<close>

theorem expired_claim_outcome:
  assumes "ex < block_timestamp ctx"
  shows "setApprovalForAllWithSignature vm ctx ow op ap ft fv fr sd ex sg st =
    (Some (let claim = generateClaim vm (address_this ctx) ow op ap ft fv fr sd ex in
       if claimCancelled st claim then CLAIM_CANCELED
       else case isValidSignature vm ow claim sg of
              Inl e \<Rightarrow> e
            | Inr False \<Rightarrow> INVALID_SIGNATURE
            | Inr True \<Rightarrow> if claimPerformed st claim then CLAIM_PERFORMED else CLAIM_EXPIRED), st)"
proof -
  from assms have "\<not> (ex \<ge> block_timestamp ctx)" by simp
  then show ?thesis by (intro perform_verification_order) simp
qed

text \<open>
  The amended C1 on the test deployment: an expired claim with the owner's signature, on
  fresh storage, is refused with \<open>CLAIM_EXPIRED\<close>.
\<close>

theorem expired_claim_outcome_witness:
  "(5::uint256) < block_timestamp (stub_ctx 1 10) \<and>
   setApprovalForAllWithSignature stub_evm (stub_ctx 1 10) 2 3 True 4 0 0 1 5
     (signed_by 2 no_prefix) deployed_state = (Some CLAIM_EXPIRED, deployed_state)"
  using expired_claim_outcome [where ex=5 and ctx="stub_ctx 1 10" and vm=stub_evm and ow=2
      and op=3 and ap=True and ft=4 and fv=0 and fr=0 and sd=1 and sg="signed_by 2 no_prefix"
      and st=deployed_state]
  by (simp add: stub_defs)

subsection \<open>Replay\<close>

text \<open>
  C2, as stated: after a successful perform, a second perform of the same digest always
  fails with \<open>CLAIM_PERFORMED\<close>. On the code the signature is checked before the
  performed flag: a second perform of the same claim that carries a signature not
  recovering the owner fails with \<open>INVALID_SIGNATURE\<close>.
\<close>

theorem replay_invalid_signature_counterexample:
  "fst (setApprovalForAllWithSignature stub_evm (stub_ctx 1 10) 2 3 True 4 0 0 1 50
          (signed_by 2 no_prefix) deployed_state) = None \<and>
   fst (setApprovalForAllWithSignature stub_evm (stub_ctx 1 10) 2 3 True 4 0 0 1 50
          (signed_by 7 no_prefix)
          (snd (setApprovalForAllWithSignature stub_evm (stub_ctx 1 10) 2 3 True 4 0 0 1 50
                  (signed_by 2 no_prefix) deployed_state))) = Some INVALID_SIGNATURE"
  by (simp add: setApprovalForAllWithSignature_def stub_defs)

text \<open>
  C2, amended: after a successful perform the claim is marked performed, and every later
  perform of the same claim on that storage fails and leaves the storage as it is,
  whoever sends it, whenever, and whatever the fee transfer would do. The error is
  \<open>CLAIM_PERFORMED\<close> when the signature submitted is valid (so for the same claim and
  signature again), \<open>INVALID_SIGNATURE\<close> when it is not.
  Performing a cancelled claim is refused with \<open>CLAIM_CANCELED\<close>.
\<close>

theorem replay_outcome:
  "(setApprovalForAllWithSignature vm ctx ow op ap ft fv fr sd ex sg st = (None, st1) \<longrightarrow>
      claimPerformed st1 (generateClaim vm (address_this ctx) ow op ap ft fv fr sd ex) \<and>
      setApprovalForAllWithSignature vm
        (ctx\<lparr>msg_sender := sender', block_timestamp := now', transferFrom_returns := tf'\<rparr>)
        ow op ap ft fv fr sd ex sg' st1 =
      (Some (case isValidSignature vm ow
                    (generateClaim vm (address_this ctx) ow op ap ft fv fr sd ex) sg' of
               Inl e \<Rightarrow> e | Inr False \<Rightarrow> INVALID_SIGNATURE | Inr True \<Rightarrow> CLAIM_PERFORMED), st1) \<and>
      setApprovalForAllWithSignature vm
        (ctx\<lparr>msg_sender := sender', block_timestamp := now', transferFrom_returns := tf'\<rparr>)
        ow op ap ft fv fr sd ex sg st1 = (Some CLAIM_PERFORMED, st1)) \<and>
   (claimCancelled st2 (generateClaim vm (address_this ctx) ow op ap ft fv fr sd ex) \<longrightarrow>
      setApprovalForAllWithSignature vm ctx ow op ap ft fv fr sd ex sg' st2 =
      (Some CLAIM_CANCELED, st2))"
proof (intro conjI impI)
  let ?claim = "generateClaim vm (address_this ctx) ow op ap ft fv fr sd ex"
  let ?ctx' = "ctx\<lparr>msg_sender := sender', block_timestamp := now', transferFrom_returns := tf'\<rparr>"
  assume first: "setApprovalForAllWithSignature vm ctx ow op ap ft fv fr sd ex sg st = (None, st1)"
  then have "fst (setApprovalForAllWithSignature vm ctx ow op ap ft fv fr sd ex sg st) = None"
    by simp
  then have nc: "\<not> claimCancelled st ?claim" and valid: "isValidSignature vm ow ?claim sg = Inr True"
    by (simp_all add: perform_success_iff Let_def)
  note st1 = perform_success_state [OF first]
  show p1: "claimPerformed st1 ?claim" by (simp add: st1)
  have c1: "\<not> claimCancelled st1 ?claim" using nc by (simp add: st1)
  have second: "setApprovalForAllWithSignature vm ?ctx' ow op ap ft fv fr sd ex sg'' st1 =
    (Some (case isValidSignature vm ow ?claim sg'' of
             Inl e \<Rightarrow> e | Inr False \<Rightarrow> INVALID_SIGNATURE | Inr True \<Rightarrow> CLAIM_PERFORMED), st1)"
    for sg''
    using perform_on_performed [of st1 vm ?ctx' ow op ap ft fv fr sd ex sg''] p1 c1
    by simp
  show "setApprovalForAllWithSignature vm ?ctx' ow op ap ft fv fr sd ex sg' st1 =
    (Some (case isValidSignature vm ow ?claim sg' of
             Inl e \<Rightarrow> e | Inr False \<Rightarrow> INVALID_SIGNATURE | Inr True \<Rightarrow> CLAIM_PERFORMED), st1)"
    by (rule second)
  show "setApprovalForAllWithSignature vm ?ctx' ow op ap ft fv fr sd ex sg st1 =
    (Some CLAIM_PERFORMED, st1)"
    using second [of sg] valid by simp
next
  assume "claimCancelled st2 (generateClaim vm (address_this ctx) ow op ap ft fv fr sd ex)"
  then show "setApprovalForAllWithSignature vm ctx ow op ap ft fv fr sd ex sg' st2 =
      (Some CLAIM_CANCELED, st2)"
    by (rule perform_cancelled)
qed

text \<open>
  The amended C2 on the test deployment: the owner's claim is performed on fresh storage
  and submitted again later by another sender, once with the same signature and once with
  a signature of the wrong account; and the same claim is submitted on storage where it is
  cancelled.
\<close>

theorem replay_outcome_witness:
  "setApprovalForAllWithSignature stub_evm (stub_ctx 1 10) 2 3 True 4 0 0 1 50
     (signed_by 2 no_prefix) deployed_state =
   (None, snd (setApprovalForAllWithSignature stub_evm (stub_ctx 1 10) 2 3 True 4 0 0 1 50
                 (signed_by 2 no_prefix) deployed_state)) \<and>
   fst (setApprovalForAllWithSignature stub_evm
     ((stub_ctx 1 10)\<lparr>msg_sender := 9, block_timestamp := 20,
        transferFrom_returns := transferFrom_returns (stub_ctx 1 10)\<rparr>)
     2 3 True 4 0 0 1 50 (signed_by 2 no_prefix)
     (snd (setApprovalForAllWithSignature stub_evm (stub_ctx 1 10) 2 3 True 4 0 0 1 50
             (signed_by 2 no_prefix) deployed_state))) = Some CLAIM_PERFORMED \<and>
   fst (setApprovalForAllWithSignature stub_evm
     ((stub_ctx 1 10)\<lparr>msg_sender := 9, block_timestamp := 20,
        transferFrom_returns := transferFrom_returns (stub_ctx 1 10)\<rparr>)
     2 3 True 4 0 0 1 50 (signed_by 7 no_prefix)
     (snd (setApprovalForAllWithSignature stub_evm (stub_ctx 1 10) 2 3 True 4 0 0 1 50
             (signed_by 2 no_prefix) deployed_state))) = Some INVALID_SIGNATURE \<and>
   claimCancelled
     (deployed_state\<lparr>claimCancelled :=
        (claimCancelled deployed_state)
          (generateClaim stub_evm (address_this (stub_ctx 1 10)) 2 3 True 4 0 0 1 50 := True)\<rparr>)
     (generateClaim stub_evm (address_this (stub_ctx 1 10)) 2 3 True 4 0 0 1 50) \<and>
   fst (setApprovalForAllWithSignature stub_evm (stub_ctx 1 10) 2 3 True 4 0 0 1 50
     (signed_by 7 no_prefix)
     (deployed_state\<lparr>claimCancelled :=
        (claimCancelled deployed_state)
          (generateClaim stub_evm (address_this (stub_ctx 1 10)) 2 3 True 4 0 0 1 50 := True)\<rparr>))
     = Some CLAIM_CANCELED"
proof -
  let ?st1 = "snd (setApprovalForAllWithSignature stub_evm (stub_ctx 1 10) 2 3 True 4 0 0 1 50
                 (signed_by 2 no_prefix) deployed_state)"
  let ?st2 = "deployed_state\<lparr>claimCancelled :=
        (claimCancelled deployed_state)
          (generateClaim stub_evm (address_this (stub_ctx 1 10)) 2 3 True 4 0 0 1 50 := True)\<rparr>"
  have ok: "fst (setApprovalForAllWithSignature stub_evm (stub_ctx 1 10) 2 3 True 4 0 0 1 50
     (signed_by 2 no_prefix) deployed_state) = None"
    by (simp add: perform_success_iff stub_defs)
  then have first: "setApprovalForAllWithSignature stub_evm (stub_ctx 1 10) 2 3 True 4 0 0 1 50
     (signed_by 2 no_prefix) deployed_state = (None, ?st1)"
    by (simp add: prod_eq_iff)
  have canc: "claimCancelled ?st2
     (generateClaim stub_evm (address_this (stub_ctx 1 10)) 2 3 True 4 0 0 1 50)"
    by simp
  have bad: "isValidSignature stub_evm 2
     (generateClaim stub_evm (address_this (stub_ctx 1 10)) 2 3 True 4 0 0 1 50)
     (signed_by 7 no_prefix) = Inr False"
    by (simp add: stub_defs)
  from replay_outcome [where vm=stub_evm and ctx="stub_ctx 1 10" and ow=2 and op=3 and ap=True
      and ft=4 and fv=0 and fr=0 and sd=1 and ex=50 and sg="signed_by 2 no_prefix"
      and st=deployed_state and ?st1.0="?st1" and sender'=9 and now'=20
      and tf'="transferFrom_returns (stub_ctx 1 10)" and sg'="signed_by 7 no_prefix"
      and ?st2.0="?st2"] first canc bad
  show ?thesis by simp
qed

subsection \<open>Cancelling\<close>

text \<open>
  C3: cancelling a claim that is already performed fails (with \<open>CLAIM_PERFORMED\<close> for the
  owner, with \<open>NOT_OWNER\<close> for anyone else) and writes nothing; cancelling fails with
  \<open>NOT_OWNER\<close> whenever the caller is not the claim's owner; performing a claim that is
  already cancelled fails with \<open>CLAIM_CANCELED\<close>.
\<close>

theorem cancel_exclusive:
  "(claimPerformed st (generateClaim vm (address_this ctx) ow op ap ft fv fr sd ex) \<longrightarrow>
      cancelSetApprovalForAllWithSignature vm ctx ow op ap ft fv fr sd ex st =
      (Some (if msg_sender ctx = ow then CLAIM_PERFORMED else NOT_OWNER), st)) \<and>
   (msg_sender ctx \<noteq> ow \<longrightarrow>
      cancelSetApprovalForAllWithSignature vm ctx ow op ap ft fv fr sd ex st =
      (Some NOT_OWNER, st)) \<and>
   (claimCancelled st (generateClaim vm (address_this ctx) ow op ap ft fv fr sd ex) \<longrightarrow>
      setApprovalForAllWithSignature vm ctx ow op ap ft fv fr sd ex sg st =
      (Some CLAIM_CANCELED, st))"
  using cancel_on_performed [of st vm ctx ow op ap ft fv fr sd ex]
    cancel_not_owner [of ctx ow vm op ap ft fv fr sd ex st]
    perform_cancelled [of st vm ctx ow op ap ft fv fr sd ex sg]
  by blast

text \<open>
  C3 on the test deployment: the owner (account 2) cancels a claim that was performed on
  fresh storage; account 1 tries to cancel on fresh storage; and the owner's signed claim
  is performed on the storage left by the owner's cancel.
\<close>

theorem cancel_exclusive_witness:
  "claimPerformed
     (snd (setApprovalForAllWithSignature stub_evm (stub_ctx 1 10) 2 3 True 4 0 0 1 50
             (signed_by 2 no_prefix) deployed_state))
     (generateClaim stub_evm (address_this (stub_ctx 2 10)) 2 3 True 4 0 0 1 50) \<and>
   cancelSetApprovalForAllWithSignature stub_evm (stub_ctx 2 10) 2 3 True 4 0 0 1 50
     (snd (setApprovalForAllWithSignature stub_evm (stub_ctx 1 10) 2 3 True 4 0 0 1 50
             (signed_by 2 no_prefix) deployed_state)) =
   (Some CLAIM_PERFORMED,
     snd (setApprovalForAllWithSignature stub_evm (stub_ctx 1 10) 2 3 True 4 0 0 1 50
            (signed_by 2 no_prefix) deployed_state)) \<and>
   msg_sender (stub_ctx 1 10) \<noteq> 2 \<and>
   cancelSetApprovalForAllWithSignature stub_evm (stub_ctx 1 10) 2 3 True 4 0 0 1 50
     deployed_state = (Some NOT_OWNER, deployed_state) \<and>
   fst (cancelSetApprovalForAllWithSignature stub_evm (stub_ctx 2 10) 2 3 True 4 0 0 1 50
     deployed_state) = None \<and>
   claimCancelled
     (snd (cancelSetApprovalForAllWithSignature stub_evm (stub_ctx 2 10) 2 3 True 4 0 0 1 50
             deployed_state))
     (generateClaim stub_evm (address_this (stub_ctx 2 10)) 2 3 True 4 0 0 1 50) \<and>
   setApprovalForAllWithSignature stub_evm (stub_ctx 2 10) 2 3 True 4 0 0 1 50
     (signed_by 2 no_prefix)
     (snd (cancelSetApprovalForAllWithSignature stub_evm (stub_ctx 2 10) 2 3 True 4 0 0 1 50
             deployed_state)) =
   (Some CLAIM_CANCELED,
     snd (cancelSetApprovalForAllWithSignature stub_evm (stub_ctx 2 10) 2 3 True 4 0 0 1 50
            deployed_state))"
proof -
  let ?claim = "generateClaim stub_evm (address_this (stub_ctx 2 10)) 2 3 True 4 0 0 1 50"
  let ?stp = "snd (setApprovalForAllWithSignature stub_evm (stub_ctx 1 10) 2 3 True 4 0 0 1 50
             (signed_by 2 no_prefix) deployed_state)"
  let ?stc = "snd (cancelSetApprovalForAllWithSignature stub_evm (stub_ctx 2 10) 2 3 True 4 0 0 1 50
             deployed_state)"
  have p: "claimPerformed ?stp ?claim"
    by (simp add: setApprovalForAllWithSignature_def stub_defs)
  have n: "msg_sender (stub_ctx 1 10) \<noteq> 2"
    by (simp add: stub_ctx_def)
  have ok: "fst (cancelSetApprovalForAllWithSignature stub_evm (stub_ctx 2 10) 2 3 True 4 0 0 1 50
     deployed_state) = None"
    by (simp add: cancel_success_iff stub_defs)
  have c: "claimCancelled ?stc ?claim"
    by (simp add: cancelSetApprovalForAllWithSignature_def stub_defs)
  have o: "msg_sender (stub_ctx 2 10) = 2"
    by (simp add: stub_ctx_def)
  from cancel_exclusive [where vm=stub_evm and ctx="stub_ctx 2 10" and ow=2 and op=3
      and ap=True and ft=4 and fv=0 and fr=0 and sd=1 and ex=50 and st="?stp"] p o
  have a: "cancelSetApprovalForAllWithSignature stub_evm (stub_ctx 2 10) 2 3 True 4 0 0 1 50 ?stp =
    (Some CLAIM_PERFORMED, ?stp)"
    by simp
  from cancel_exclusive [where vm=stub_evm and ctx="stub_ctx 1 10" and ow=2 and op=3
      and ap=True and ft=4 and fv=0 and fr=0 and sd=1 and ex=50 and st=deployed_state] n
  have b: "cancelSetApprovalForAllWithSignature stub_evm (stub_ctx 1 10) 2 3 True 4 0 0 1 50
     deployed_state = (Some NOT_OWNER, deployed_state)"
    by blast
  from cancel_exclusive [where vm=stub_evm and ctx="stub_ctx 2 10" and ow=2 and op=3
      and ap=True and ft=4 and fv=0 and fr=0 and sd=1 and ex=50 and st="?stc"
      and sg="signed_by 2 no_prefix"] c
  have d: "setApprovalForAllWithSignature stub_evm (stub_ctx 2 10) 2 3 True 4 0 0 1 50
     (signed_by 2 no_prefix) ?stc = (Some CLAIM_CANCELED, ?stc)"
    by blast
  from p a n b ok c d show ?thesis by blast
qed

subsection \<open>Calling twice\<close>

text \<open>
  C4, as stated: either operation, called a second time after it succeeded, fails; in
  particular cancelling a cancelled claim fails. On the code the cancel operation never
  reads \<open>claimCancelled\<close>: the owner's second cancel of the same claim succeeds.
\<close>

theorem cancel_twice_counterexample:
  "fst (cancelSetApprovalForAllWithSignature stub_evm (stub_ctx 2 10) 2 3 True 4 0 0 1 50
          deployed_state) = None \<and>
   fst (cancelSetApprovalForAllWithSignature stub_evm (stub_ctx 2 10) 2 3 True 4 0 0 1 50
          (snd (cancelSetApprovalForAllWithSignature stub_evm (stub_ctx 2 10) 2 3 True 4 0 0 1 50
                  deployed_state))) = None"
  by (simp add: cancelSetApprovalForAllWithSignature_def stub_defs)

text \<open>
  C4, amended: a perform after a successful perform of the same claim fails, whatever
  signature, sender and time it comes with. A cancel after a successful cancel of the same
  claim by its owner succeeds again and leaves the storage exactly as the first cancel
  left it.
\<close>

theorem second_call_outcome:
  "(setApprovalForAllWithSignature vm ctx ow op ap ft fv fr sd ex sg st = (None, st1) \<longrightarrow>
      fst (setApprovalForAllWithSignature vm
             (ctx\<lparr>msg_sender := sender', block_timestamp := now', transferFrom_returns := tf'\<rparr>)
             ow op ap ft fv fr sd ex sg' st1) \<noteq> None) \<and>
   (cancelSetApprovalForAllWithSignature vm ctx ow op ap ft fv fr sd ex st = (None, st2) \<longrightarrow>
      cancelSetApprovalForAllWithSignature vm
        (ctx\<lparr>block_timestamp := now', transferFrom_returns := tf'\<rparr>)
        ow op ap ft fv fr sd ex st2 = (None, st2))"
proof (intro conjI impI)
  assume "setApprovalForAllWithSignature vm ctx ow op ap ft fv fr sd ex sg st = (None, st1)"
  from perform_success_state [OF this]
  have "claimPerformed st1 (generateClaim vm (address_this ctx) ow op ap ft fv fr sd ex)"
    by simp
  then show "fst (setApprovalForAllWithSignature vm
             (ctx\<lparr>msg_sender := sender', block_timestamp := now', transferFrom_returns := tf'\<rparr>)
             ow op ap ft fv fr sd ex sg' st1) \<noteq> None"
    by (simp add: perform_success_iff)
next
  assume c: "cancelSetApprovalForAllWithSignature vm ctx ow op ap ft fv fr sd ex st = (None, st2)"
  then have "fst (cancelSetApprovalForAllWithSignature vm ctx ow op ap ft fv fr sd ex st) = None"
    by simp
  then have ow: "msg_sender ctx = ow"
    and np: "\<not> claimPerformed st (generateClaim vm (address_this ctx) ow op ap ft fv fr sd ex)"
    by (simp_all add: cancel_success_iff)
  note st2 = cancel_success_state [OF c]
  show "cancelSetApprovalForAllWithSignature vm
        (ctx\<lparr>block_timestamp := now', transferFrom_returns := tf'\<rparr>)
        ow op ap ft fv fr sd ex st2 = (None, st2)"
    using ow np by (simp add: cancelSetApprovalForAllWithSignature_def st2)
qed

text \<open>
  The amended C4 on the test deployment: a claim performed on fresh storage and performed
  again, and a claim cancelled on fresh storage and cancelled again.
\<close>

theorem second_call_outcome_witness:
  "fst (setApprovalForAllWithSignature stub_evm (stub_ctx 1 10) 2 3 True 4 0 0 1 50
          (signed_by 2 no_prefix) deployed_state) = None \<and>
   fst (setApprovalForAllWithSignature stub_evm
          ((stub_ctx 1 10)\<lparr>msg_sender := 9, block_timestamp := 20,
             transferFrom_returns := transferFrom_returns (stub_ctx 1 10)\<rparr>)
          2 3 True 4 0 0 1 50 (signed_by 2 eth_sign)
          (snd (setApprovalForAllWithSignature stub_evm (stub_ctx 1 10) 2 3 True 4 0 0 1 50
                  (signed_by 2 no_prefix) deployed_state))) \<noteq> None \<and>
   fst (cancelSetApprovalForAllWithSignature stub_evm (stub_ctx 2 10) 2 3 True 4 0 0 1 50
          deployed_state) = None \<and>
   cancelSetApprovalForAllWithSignature stub_evm
     ((stub_ctx 2 10)\<lparr>block_timestamp := 20,
        transferFrom_returns := transferFrom_returns (stub_ctx 1 10)\<rparr>)
     2 3 True 4 0 0 1 50
     (snd (cancelSetApprovalForAllWithSignature stub_evm (stub_ctx 2 10) 2 3 True 4 0 0 1 50
             deployed_state)) =
   (None, snd (cancelSetApprovalForAllWithSignature stub_evm (stub_ctx 2 10) 2 3 True 4 0 0 1 50
                 deployed_state))"
proof -
  let ?stp = "snd (setApprovalForAllWithSignature stub_evm (stub_ctx 1 10) 2 3 True 4 0 0 1 50
             (signed_by 2 no_prefix) deployed_state)"
  let ?stc = "snd (cancelSetApprovalForAllWithSignature stub_evm (stub_ctx 2 10) 2 3 True 4 0 0 1 50
             deployed_state)"
  have okp: "fst (setApprovalForAllWithSignature stub_evm (stub_ctx 1 10) 2 3 True 4 0 0 1 50
          (signed_by 2 no_prefix) deployed_state) = None"
    by (simp add: perform_success_iff stub_defs)
  then have p: "setApprovalForAllWithSignature stub_evm (stub_ctx 1 10) 2 3 True 4 0 0 1 50
          (signed_by 2 no_prefix) deployed_state = (None, ?stp)"
    by (simp add: prod_eq_iff)
  have okc: "fst (cancelSetApprovalForAllWithSignature stub_evm (stub_ctx 2 10) 2 3 True 4 0 0 1 50
          deployed_state) = None"
    by (simp add: cancel_success_iff stub_defs)
  then have c: "cancelSetApprovalForAllWithSignature stub_evm (stub_ctx 2 10) 2 3 True 4 0 0 1 50
          deployed_state = (None, ?stc)"
    by (simp add: prod_eq_iff)
  from second_call_outcome [where vm=stub_evm and ctx="stub_ctx 1 10" and ow=2 and op=3
      and ap=True and ft=4 and fv=0 and fr=0 and sd=1 and ex=50 and sg="signed_by 2 no_prefix"
      and st=deployed_state and ?st1.0="?stp" and sender'=9 and now'=20
      and tf'="transferFrom_returns (stub_ctx 1 10)" and sg'="signed_by 2 eth_sign"] p
  have a: "fst (setApprovalForAllWithSignature stub_evm
          ((stub_ctx 1 10)\<lparr>msg_sender := 9, block_timestamp := 20,
             transferFrom_returns := transferFrom_returns (stub_ctx 1 10)\<rparr>)
          2 3 True 4 0 0 1 50 (signed_by 2 eth_sign) ?stp) \<noteq> None"
    by blast
  from second_call_outcome [where vm=stub_evm and ctx="stub_ctx 2 10" and ow=2 and op=3
      and ap=True and ft=4 and fv=0 and fr=0 and sd=1 and ex=50
      and st=deployed_state and ?st2.0="?stc" and now'=20
      and tf'="transferFrom_returns (stub_ctx 1 10)"] c
  have b: "cancelSetApprovalForAllWithSignature stub_evm
     ((stub_ctx 2 10)\<lparr>block_timestamp := 20,
        transferFrom_returns := transferFrom_returns (stub_ctx 1 10)\<rparr>)
     2 3 True 4 0 0 1 50 ?stc = (None, ?stc)"
    by blast
  from okp a okc b show ?thesis by blast
qed

subsection \<open>No write before the checks have passed\<close>

text \<open>
  C7: when any verification step of \<open>setApprovalForAllWithSignature\<close> fails (the claim is
  cancelled, the signature is not valid, the claim is already performed, or it has
  expired), the call stops with one of the verification errors before anything is
  written: the storage at the failing \<open>require\<close> is the storage the call started with, and
  so is the storage after the call.
\<close>

theorem verification_failure_atomic:
  assumes "claimCancelled st (generateClaim vm (address_this ctx) ow op ap ft fv fr sd ex) \<or>
           isValidSignature vm ow (generateClaim vm (address_this ctx) ow op ap ft fv fr sd ex) sg
             \<noteq> Inr True \<or>
           claimPerformed st (generateClaim vm (address_this ctx) ow op ap ft fv fr sd ex) \<or>
           ex < block_timestamp ctx"
  shows "fst (setApprovalForAllWithSignature vm ctx ow op ap ft fv fr sd ex sg st) \<in>
           {Some CLAIM_CANCELED, Some INVALID_SIGNATURE, Some INVALID_SIGNATURE_KIND,
            Some CLAIM_PERFORMED, Some CLAIM_EXPIRED} \<and>
         snd (setApprovalForAllWithSignature vm ctx ow op ap ft fv fr sd ex sg st) = st \<and>
         transact (setApprovalForAllWithSignature vm ctx ow op ap ft fv fr sd ex sg) st =
           (fst (setApprovalForAllWithSignature vm ctx ow op ap ft fv fr sd ex sg st), st) \<and>
         claimPerformed (snd (transact
           (setApprovalForAllWithSignature vm ctx ow op ap ft fv fr sd ex sg) st)) = claimPerformed st \<and>
         claimCancelled (snd (transact
           (setApprovalForAllWithSignature vm ctx ow op ap ft fv fr sd ex sg) st)) = claimCancelled st \<and>
         ownerToOperators (snd (transact
           (setApprovalForAllWithSignature vm ctx ow op ap ft fv fr sd ex sg) st)) = ownerToOperators st"
proof -
  let ?claim = "generateClaim vm (address_this ctx) ow op ap ft fv fr sd ex"
  let ?e = "if claimCancelled st ?claim then CLAIM_CANCELED
      else case isValidSignature vm ow ?claim sg of
             Inl e \<Rightarrow> e
           | Inr False \<Rightarrow> INVALID_SIGNATURE
           | Inr True \<Rightarrow> if claimPerformed st ?claim then CLAIM_PERFORMED else CLAIM_EXPIRED"
  from assms have "\<not> (ex \<ge> block_timestamp ctx) \<or> claimPerformed st ?claim
     \<or> claimCancelled st ?claim \<or> isValidSignature vm ow ?claim sg \<noteq> Inr True"
    by auto
  from perform_verification_order [OF this]
  have res: "setApprovalForAllWithSignature vm ctx ow op ap ft fv fr sd ex sg st = (Some ?e, st)"
    by (simp add: Let_def)
  have "?e \<in> {CLAIM_CANCELED, INVALID_SIGNATURE, INVALID_SIGNATURE_KIND, CLAIM_PERFORMED,
      CLAIM_EXPIRED}"
    by (auto split: sum.splits bool.splits dest: isValidSignature_error)
  with res show ?thesis
    by (simp add: transact_def)
qed

text \<open>
  C7 on the test deployment: a claim signed by the wrong account, submitted on fresh
  storage, is refused and the storage stays fresh.
\<close>

theorem verification_failure_atomic_witness:
  "isValidSignature stub_evm 2
     (generateClaim stub_evm (address_this (stub_ctx 1 10)) 2 3 True 4 0 0 1 50)
     (signed_by 7 eth_sign) \<noteq> Inr True \<and>
   transact (setApprovalForAllWithSignature stub_evm (stub_ctx 1 10) 2 3 True 4 0 0 1 50
     (signed_by 7 eth_sign)) deployed_state = (Some INVALID_SIGNATURE, deployed_state)"
proof -
  have bad: "isValidSignature stub_evm 2
     (generateClaim stub_evm (address_this (stub_ctx 1 10)) 2 3 True 4 0 0 1 50)
     (signed_by 7 eth_sign) \<noteq> Inr True"
    by (simp add: stub_defs)
  have e: "fst (setApprovalForAllWithSignature stub_evm (stub_ctx 1 10) 2 3 True 4 0 0 1 50
     (signed_by 7 eth_sign) deployed_state) = Some INVALID_SIGNATURE"
    by (simp add: setApprovalForAllWithSignature_def stub_defs)
  from verification_failure_atomic [where vm=stub_evm and ctx="stub_ctx 1 10" and ow=2 and op=3
      and ap=True and ft=4 and fv=0 and fr=0 and sd=1 and ex=50 and sg="signed_by 7 eth_sign"
      and st=deployed_state] bad e
  show ?thesis by simp
qed

subsection \<open>The lifecycle is one-way\<close>

text \<open>
  Neither operation ever clears a flag, and neither sets the cancelled flag of a performed
  claim: once a claim is performed and not cancelled it stays so through every later
  successful call, so what holds for a second perform right after the first holds for any
  later one.
\<close>

lemma perform_keeps_lifecycle:
  assumes "setApprovalForAllWithSignature vm ctx ow op ap ft fv fr sd ex sg st = (None, st')"
  shows "claimCancelled st' = claimCancelled st"
    and "claimPerformed st d \<Longrightarrow> claimPerformed st' d"
  using perform_success_state [OF assms] by simp_all

lemma cancel_keeps_lifecycle:
  assumes "cancelSetApprovalForAllWithSignature vm ctx ow op ap ft fv fr sd ex st = (None, st')"
  shows "claimPerformed st' = claimPerformed st"
    and "claimPerformed st d \<Longrightarrow> claimCancelled st' d = claimCancelled st d"
proof -
  note st' = cancel_success_state [OF assms]
  from assms have "fst (cancelSetApprovalForAllWithSignature vm ctx ow op ap ft fv fr sd ex st) = None"
    by simp
  then have np: "\<not> claimPerformed st (generateClaim vm (address_this ctx) ow op ap ft fv fr sd ex)"
    by (simp add: cancel_success_iff)
  show "claimPerformed st' = claimPerformed st" by (simp add: st')
  show "claimCancelled st' d = claimCancelled st d" if "claimPerformed st d"
    using that np by (auto simp add: st')
qed

section \<open>The claim digest\<close>

lemma length_be_bytes: "length (be_bytes n x) = n"
  by (induction n arbitrary: x) simp_all

lemma be_bytes_numeral:
  "be_bytes (numeral k) x = be_bytes (pred_numeral k) (x div 256) @ [of_nat (x mod 256)]"
proof -
  have "numeral k = Suc (pred_numeral k)" by (rule numeral_eq_Suc)
  then show ?thesis by (simp only: be_bytes.simps)
qed

lemma byte_of_nat_inj:
  assumes "(of_nat (x mod 256) :: 8 word) = of_nat (y mod 256)"
  shows "x mod 256 = y mod 256"
proof -
  have "unat (of_nat (x mod 256) :: 8 word) = x mod 256"
    by (simp add: unat_of_nat)
  moreover have "unat (of_nat (y mod 256) :: 8 word) = y mod 256"
    by (simp add: unat_of_nat)
  ultimately show ?thesis using assms by metis
qed

text \<open>A value that fits into \<open>n\<close> bytes is determined by its \<open>n\<close> big-endian bytes.\<close>

lemma be_bytes_inj:
  "x < 256 ^ n \<Longrightarrow> y < 256 ^ n \<Longrightarrow> be_bytes n x = be_bytes n y \<Longrightarrow> x = y"
proof (induction n arbitrary: x y)
  case 0
  then show ?case by simp
next
  case (Suc n)
  from Suc.prems(3) have hi: "be_bytes n (x div 256) = be_bytes n (y div 256)"
    and lo: "(of_nat (x mod 256) :: 8 word) = of_nat (y mod 256)"
    by simp_all
  have bx: "x div 256 < 256 ^ n" and bz: "y div 256 < 256 ^ n"
    using Suc.prems(1,2) by (simp_all add: less_mult_imp_div_less mult.commute)
  have d: "x div 256 = y div 256" by (rule Suc.IH [OF bx bz hi])
  from lo have m: "x mod 256 = y mod 256" by (rule byte_of_nat_inj)
  have "x = 256 * (x div 256) + x mod 256" by simp
  also have "\<dots> = 256 * (y div 256) + y mod 256" using d m by simp
  also have "\<dots> = y" by simp
  finally show ?case .
qed

lemma address_bytes_inj: "be_bytes 20 (unat (a::address)) = be_bytes 20 (unat b) \<Longrightarrow> a = b"
proof -
  assume eq: "be_bytes 20 (unat a) = be_bytes 20 (unat b)"
  have "unat a < 2 ^ 160" "unat b < 2 ^ 160"
    using unsigned_less [of a] unsigned_less [of b] by simp_all
  then have "unat a < 256 ^ 20" "unat b < 256 ^ 20" by simp_all
  from be_bytes_inj [OF this eq] show "a = b" by (simp add: word_unat_eq_iff)
qed

lemma uint256_bytes_inj: "be_bytes 32 (unat (a::uint256)) = be_bytes 32 (unat b) \<Longrightarrow> a = b"
proof -
  assume eq: "be_bytes 32 (unat a) = be_bytes 32 (unat b)"
  have "unat a < 2 ^ 256" "unat b < 2 ^ 256"
    using unsigned_less [of a] unsigned_less [of b] by simp_all
  then have "unat a < 256 ^ 32" "unat b < 256 ^ 32" by simp_all
  from be_bytes_inj [OF this eq] show "a = b" by (simp add: word_unat_eq_iff)
qed

lemma be_bytes_append_eq:
  "be_bytes n x @ xs = be_bytes n y @ ys \<longleftrightarrow> be_bytes n x = be_bytes n y \<and> xs = ys"
  by (simp add: length_be_bytes)

lemma packed_fields_inj:
  assumes eq: "packed_fields c = packed_fields c'"
  shows "c = c'"
proof -
  from eq have
    f1: "be_bytes 20 (unat (dispatcherId c)) = be_bytes 20 (unat (dispatcherId c'))" and
    f2: "be_bytes 20 (unat (ownerId c)) = be_bytes 20 (unat (ownerId c'))" and
    f3: "be_bytes 20 (unat (operatorId c)) = be_bytes 20 (unat (operatorId c'))" and
    f4: "(if approvedFlag c then 1 else 0 :: 8 word) = (if approvedFlag c' then 1 else 0)" and
    f5: "be_bytes 20 (unat (feeTokenId c)) = be_bytes 20 (unat (feeTokenId c'))" and
    f6: "be_bytes 32 (unat (feeValue c)) = be_bytes 32 (unat (feeValue c'))" and
    f7: "be_bytes 20 (unat (feeRecipientId c)) = be_bytes 20 (unat (feeRecipientId c'))" and
    f8: "be_bytes 32 (unat (seed c)) = be_bytes 32 (unat (seed c'))" and
    f9: "be_bytes 32 (unat (expirationTimestamp c)) = be_bytes 32 (unat (expirationTimestamp c'))"
    unfolding packed_fields_def be_bytes_append_eq append_Cons append_Nil list.inject
    by blast+
  from f4 have g4: "approvedFlag c = approvedFlag c'"
    by (simp split: if_splits)
  note g = address_bytes_inj [OF f1] address_bytes_inj [OF f2] address_bytes_inj [OF f3] g4
    address_bytes_inj [OF f5] uint256_bytes_inj [OF f6] address_bytes_inj [OF f7]
    uint256_bytes_inj [OF f8] uint256_bytes_inj [OF f9]
  show ?thesis
    by (rule approval_claim.equality) (simp_all add: g)
qed

lemma take_packed_fields: "take 20 (packed_fields c) = be_bytes 20 (unat (dispatcherId c))"
  by (simp add: packed_fields_def length_be_bytes)

lemma generateClaim_digest:
  "generateClaim vm this ow op ap ft fv fr sd ex =
   claim_digest vm \<lparr>dispatcherId = this, ownerId = ow, operatorId = op, approvedFlag = ap,
      feeTokenId = ft, feeValue = fv, feeRecipientId = fr, seed = sd, expirationTimestamp = ex\<rparr>"
  by (simp add: generateClaim_def claim_digest_def packed_fields_def encodePacked_def)

text \<open>
  C5: the digest \<open>generateClaim\<close> computes is the hash of the packed sequence
  \<open>[dispatcherId, ownerId, operatorId, approvedFlag, feeTokenId, feeValue, feeRecipientId,
  seed, expirationTimestamp]\<close> in that order, the contract's own address being the first
  field (the first 20 of the 197 bytes hashed). The function reads nothing but its
  arguments and that address, and the bytes hashed determine every field: two requests
  that differ in any field, or in the contract they are addressed to, are hashed from
  different byte strings.
\<close>

theorem generateClaim_field_order:
  "generateClaim vm this ow op ap ft fv fr sd ex =
     keccak256 vm (packed_fields
       \<lparr>dispatcherId = this, ownerId = ow, operatorId = op, approvedFlag = ap,
        feeTokenId = ft, feeValue = fv, feeRecipientId = fr, seed = sd,
        expirationTimestamp = ex\<rparr>) \<and>
   length (packed_fields c) = 197 \<and>
   take 20 (packed_fields c) = be_bytes 20 (unat (dispatcherId c)) \<and>
   (packed_fields c = packed_fields c' \<longrightarrow> c = c')"
proof (intro conjI impI)
  show "generateClaim vm this ow op ap ft fv fr sd ex =
     keccak256 vm (packed_fields
       \<lparr>dispatcherId = this, ownerId = ow, operatorId = op, approvedFlag = ap,
        feeTokenId = ft, feeValue = fv, feeRecipientId = fr, seed = sd,
        expirationTimestamp = ex\<rparr>)"
    using generateClaim_digest [of vm this ow op ap ft fv fr sd ex]
    by (simp add: claim_digest_def)
  show "length (packed_fields c) = 197"
    by (simp add: packed_fields_def length_be_bytes)
  show "take 20 (packed_fields c) = be_bytes 20 (unat (dispatcherId c))"
    by (rule take_packed_fields)
  assume "packed_fields c = packed_fields c'"
  then show "c = c'" by (rule packed_fields_inj)
qed

text \<open>C5 on a concrete claim of the test deployment.\<close>

theorem generateClaim_field_order_witness:
  "generateClaim stub_evm 0xC0 2 3 True 4 0 0 1 50 =
     keccak256 stub_evm (packed_fields
       \<lparr>dispatcherId = 0xC0, ownerId = 2, operatorId = 3, approvedFlag = True,
        feeTokenId = 4, feeValue = 0, feeRecipientId = 0, seed = 1,
        expirationTimestamp = 50\<rparr>) \<and>
   take 20 (packed_fields
       \<lparr>dispatcherId = 0xC0, ownerId = 2, operatorId = 3, approvedFlag = True,
        feeTokenId = 4, feeValue = 0, feeRecipientId = 0, seed = 1,
        expirationTimestamp = 50\<rparr>) =
     [0, 0, 0, 0, 0, 0, 0, 0, 0, 0, 0, 0, 0, 0, 0, 0, 0, 0, 0, 0xC0]"
proof -
  let ?c = "\<lparr>dispatcherId = 0xC0, ownerId = 2, operatorId = 3, approvedFlag = True,
        feeTokenId = 4, feeValue = 0, feeRecipientId = 0, seed = 1,
        expirationTimestamp = 50\<rparr>"
  have b: "be_bytes 20 (unat (0xC0 :: address)) =
     [0, 0, 0, 0, 0, 0, 0, 0, 0, 0, 0, 0, 0, 0, 0, 0, 0, 0, 0, 0xC0]"
    by (simp add: be_bytes_numeral)
  have r: "packed_fields ?c = packed_fields ?c" by (rule refl)
  from generateClaim_field_order [where vm=stub_evm and this="0xC0" and ow=2 and op=3
      and ap=True and ft=4 and fv=0 and fr=0 and sd=1 and ex=50 and c="?c" and c'="?c"] r b
  show ?thesis by simp
qed

section \<open>Signature kinds\<close>

lemma be_nat_snoc: "be_nat (bs @ [b]) = 256 * be_nat bs + unat b"
  by (simp add: be_nat_def)

text \<open>The \<open>n\<close> bytes written for \<open>x\<close> read back as \<open>x\<close>, up to the \<open>n\<close> bytes there are.\<close>

lemma be_nat_be_bytes: "be_nat (be_bytes n x) = x mod 256 ^ n"
proof (induction n arbitrary: x)
  case 0
  then show ?case by (simp add: be_nat_def)
next
  case (Suc n)
  have low: "unat (of_nat (x mod 256) :: 8 word) = x mod 256"
    by (simp add: unat_of_nat)
  have "be_nat (be_bytes (Suc n) x) = 256 * (x div 256 mod 256 ^ n) + x mod 256"
    by (simp add: be_nat_snoc Suc.IH low)
  also have "\<dots> = x mod (256 * 256 ^ n)"
    by (simp add: mod_mult2_eq)
  finally show ?case by simp
qed

lemma be_nat_bytes32: "be_nat (be_bytes 32 (unat (x::bytes32))) = unat x"
proof -
  have "unat x < 2 ^ 256" using unsigned_less [of x] by simp
  then have "unat x < 256 ^ 32" by simp
  then show ?thesis by (simp only: be_nat_be_bytes mod_less)
qed

lemma isValidSignature_signed_message:
  "isValidSignature vm signer claim sg =
   Inr (signer = ecrecover vm (signed_message vm (sig_kind sg) claim)
                   (sig_v sg) (sig_r sg) (sig_s sg))"
  by (cases "sig_kind sg")
    (simp_all add: isValidSignature_def signed_message_def encodePacked_def)

text \<open>
  C6, as stated: a kind outside the three members makes the call fail with
  \<open>INVALID_SIGNATURE_KIND\<close>. On the code no call does: the kind is an enum, a value that is
  no member is refused while the arguments are decoded, with empty revert data, and the
  \<open>revert(INVALID_SIGNATURE_KIND)\<close> that ends the body is never reached.
\<close>

theorem kind_outside_enum_counterexample:
  "call_isValidSignature stub_evm 2 5 2 0 27 3 = Inl ARGUMENT_DECODING_REVERTED \<and>
   call_isValidSignature stub_evm 2 5 2 0 27 3 \<noteq> Inl INVALID_SIGNATURE_KIND"
  by (simp add: call_isValidSignature_def abi_decode_SignatureKind_def)

text \<open>
  C6, amended: \<open>isValidSignature\<close> dispatches on the signature kind and always returns a
  boolean. For \<open>no_prefix\<close> the signer is recovered from the digest itself; for
  \<open>eth_sign\<close> and \<open>trezor\<close> from the hash of a fixed prefix followed by the digest as 32
  big-endian bytes, the two prefixes being different (the first ends in the characters
  \<open>32\<close>, the second in the single byte \<open>0x20\<close>). There is no default and no fallback: the
  kind is one of the three members, \<open>INVALID_SIGNATURE_KIND\<close> is never the result, and a
  call whose kind is any other number is refused when its arguments are decoded. The
  result depends on the signer, the digest and the signature only.
\<close>

theorem isValidSignature_dispatch:
  "isValidSignature vm signer claim sg =
     Inr (signer = ecrecover vm (signed_message vm (sig_kind sg) claim)
                     (sig_v sg) (sig_r sg) (sig_s sg)) \<and>
   isValidSignature vm signer claim sg \<noteq> Inl INVALID_SIGNATURE_KIND \<and>
   signed_message vm no_prefix claim = claim \<and>
   signed_message vm eth_sign claim =
     keccak256 vm (eth_sign_prefix @ be_bytes 32 (unat claim)) \<and>
   signed_message vm trezor claim =
     keccak256 vm (trezor_prefix @ be_bytes 32 (unat claim)) \<and>
   length (be_bytes 32 (unat claim)) = 32 \<and>
   be_nat (be_bytes 32 (unat claim)) = unat claim \<and>
   eth_sign_prefix =
     [0x19, 0x45, 0x74, 0x68, 0x65, 0x72, 0x65, 0x75, 0x6D, 0x20, 0x53, 0x69, 0x67, 0x6E,
      0x65, 0x64, 0x20, 0x4D, 0x65, 0x73, 0x73, 0x61, 0x67, 0x65, 0x3A, 0x0A, 0x33, 0x32] \<and>
   trezor_prefix =
     [0x19, 0x45, 0x74, 0x68, 0x65, 0x72, 0x65, 0x75, 0x6D, 0x20, 0x53, 0x69, 0x67, 0x6E,
      0x65, 0x64, 0x20, 0x4D, 0x65, 0x73, 0x73, 0x61, 0x67, 0x65, 0x3A, 0x0A, 0x20] \<and>
   eth_sign_prefix \<noteq> trezor_prefix \<and>
   call_isValidSignature vm signer claim r s v 0 =
     isValidSignature vm signer claim \<lparr>sig_r = r, sig_s = s, sig_v = v, sig_kind = eth_sign\<rparr> \<and>
   call_isValidSignature vm signer claim r s v 1 =
     isValidSignature vm signer claim \<lparr>sig_r = r, sig_s = s, sig_v = v, sig_kind = trezor\<rparr> \<and>
   call_isValidSignature vm signer claim r s v 2 =
     isValidSignature vm signer claim \<lparr>sig_r = r, sig_s = s, sig_v = v, sig_kind = no_prefix\<rparr> \<and>
   (k \<notin> {0, 1, 2} \<longrightarrow>
      call_isValidSignature vm signer claim r s v k = Inl ARGUMENT_DECODING_REVERTED)"
proof (intro conjI impI)
  show disp: "isValidSignature vm signer claim sg =
     Inr (signer = ecrecover vm (signed_message vm (sig_kind sg) claim)
                     (sig_v sg) (sig_r sg) (sig_s sg))"
    by (rule isValidSignature_signed_message)
  show "isValidSignature vm signer claim sg \<noteq> Inl INVALID_SIGNATURE_KIND"
    by (simp add: disp)
  show "signed_message vm no_prefix claim = claim"
    by (simp add: signed_message_def)
  show "signed_message vm eth_sign claim =
     keccak256 vm (eth_sign_prefix @ be_bytes 32 (unat claim))"
    by (simp add: signed_message_def)
  show "signed_message vm trezor claim =
     keccak256 vm (trezor_prefix @ be_bytes 32 (unat claim))"
    by (simp add: signed_message_def)
  show "length (be_bytes 32 (unat claim)) = 32"
    by (rule length_be_bytes)
  show "be_nat (be_bytes 32 (unat claim)) = unat claim"
    by (rule be_nat_bytes32)
  show "eth_sign_prefix =
     [0x19, 0x45, 0x74, 0x68, 0x65, 0x72, 0x65, 0x75, 0x6D, 0x20, 0x53, 0x69, 0x67, 0x6E,
      0x65, 0x64, 0x20, 0x4D, 0x65, 0x73, 0x73, 0x61, 0x67, 0x65, 0x3A, 0x0A, 0x33, 0x32]"
    by (simp add: eth_sign_prefix_def ascii_def)
  show "trezor_prefix =
     [0x19, 0x45, 0x74, 0x68, 0x65, 0x72, 0x65, 0x75, 0x6D, 0x20, 0x53, 0x69, 0x67, 0x6E,
      0x65, 0x64, 0x20, 0x4D, 0x65, 0x73, 0x73, 0x61, 0x67, 0x65, 0x3A, 0x0A, 0x20]"
    by (simp add: trezor_prefix_def ascii_def)
  show "eth_sign_prefix \<noteq> trezor_prefix"
    by (simp add: eth_sign_prefix_def trezor_prefix_def ascii_def)
  show "call_isValidSignature vm signer claim r s v 0 =
     isValidSignature vm signer claim \<lparr>sig_r = r, sig_s = s, sig_v = v, sig_kind = eth_sign\<rparr>"
    by (simp add: call_isValidSignature_def abi_decode_SignatureKind_def)
  show "call_isValidSignature vm signer claim r s v 1 =
     isValidSignature vm signer claim \<lparr>sig_r = r, sig_s = s, sig_v = v, sig_kind = trezor\<rparr>"
    by (simp add: call_isValidSignature_def abi_decode_SignatureKind_def)
  show "call_isValidSignature vm signer claim r s v 2 =
     isValidSignature vm signer claim \<lparr>sig_r = r, sig_s = s, sig_v = v, sig_kind = no_prefix\<rparr>"
    by (simp add: call_isValidSignature_def abi_decode_SignatureKind_def)
next
  assume "k \<notin> {0, 1, 2}"
  then show "call_isValidSignature vm signer claim r s v k = Inl ARGUMENT_DECODING_REVERTED"
    by (simp add: call_isValidSignature_def abi_decode_SignatureKind_def)
qed

text \<open>
  The amended C6 with a recovery that reads the signer out of the hash it is given, on the
  digest 5: under \<open>eth_sign\<close> and under \<open>trezor\<close> the signer recovered is the one the
  stand-in hash gives for the prefix followed by 31 zero bytes and the byte 5, a different
  one for each prefix; under \<open>no_prefix\<close> it is the digest itself; and a call with kind 3
  is refused.
\<close>

theorem isValidSignature_dispatch_witness:
  "isValidSignature hash_evm 956276491771916264990614315668812673379538812577 5
     (signed_by 0 eth_sign) = Inr True \<and>
   isValidSignature hash_evm 778369258655175945469410986765574561256808232283 5
     (signed_by 0 trezor) = Inr True \<and>
   isValidSignature hash_evm 5 5 (signed_by 0 no_prefix) = Inr True \<and>
   isValidSignature hash_evm 5 5 (signed_by 0 eth_sign) = Inr False \<and>
   isValidSignature hash_evm 5 5 (signed_by 0 trezor) = Inr False \<and>
   (3::uint8) \<notin> {0, 1, 2} \<and>
   call_isValidSignature hash_evm 5 5 0 0 27 3 = Inl ARGUMENT_DECODING_REVERTED"
proof -
  have bytes: "be_bytes 32 5 =
     [0, 0, 0, 0, 0, 0, 0, 0, 0, 0, 0, 0, 0, 0, 0, 0, 0, 0, 0, 0, 0, 0, 0, 0, 0, 0, 0, 0, 0,
      0, 0, 5]"
    by (simp add: be_bytes_numeral)
  have he: "ucast (stub_keccak256 (eth_sign_prefix @ be_bytes 32 (unat (5::bytes32)))) =
     (956276491771916264990614315668812673379538812577 :: address)"
    by (simp add: bytes eth_sign_prefix_def ascii_def stub_keccak256_def)
  have ht: "ucast (stub_keccak256 (trezor_prefix @ be_bytes 32 (unat (5::bytes32)))) =
     (778369258655175945469410986765574561256808232283 :: address)"
    by (simp add: bytes trezor_prefix_def ascii_def stub_keccak256_def)
  have k3: "(3::uint8) \<notin> {0, 1, 2}" by simp
  note d = isValidSignature_dispatch [where vm=hash_evm and claim=5 and r=0 and s=0 and v=27
      and k=3]
  from d [where signer=956276491771916264990614315668812673379538812577
      and sg="signed_by 0 eth_sign"] he
  have a: "isValidSignature hash_evm 956276491771916264990614315668812673379538812577 5
     (signed_by 0 eth_sign) = Inr True"
    by (simp add: signed_by_def hash_evm_def hash_ecrecover_def)
  from d [where signer=778369258655175945469410986765574561256808232283
      and sg="signed_by 0 trezor"] ht
  have b: "isValidSignature hash_evm 778369258655175945469410986765574561256808232283 5
     (signed_by 0 trezor) = Inr True"
    by (simp add: signed_by_def hash_evm_def hash_ecrecover_def)
  from d [where signer=5 and sg="signed_by 0 no_prefix"]
  have c: "isValidSignature hash_evm 5 5 (signed_by 0 no_prefix) = Inr True"
    by (simp add: signed_by_def hash_evm_def hash_ecrecover_def)
  from d [where signer=5 and sg="signed_by 0 eth_sign"] he
  have e: "isValidSignature hash_evm 5 5 (signed_by 0 eth_sign) = Inr False"
    by (simp add: signed_by_def hash_evm_def hash_ecrecover_def)
  from d [where signer=5 and sg="signed_by 0 trezor"] ht
  have f: "isValidSignature hash_evm 5 5 (signed_by 0 trezor) = Inr False"
    by (simp add: signed_by_def hash_evm_def hash_ecrecover_def)
  from d [where signer=5] k3
  have g: "call_isValidSignature hash_evm 5 5 0 0 27 3 = Inl ARGUMENT_DECODING_REVERTED"
    by blast
  from a b c e f k3 g show ?thesis by blast
qed

section \<open>Ability bitfields\<close>

lemma indexOf_from_absent: "indexOf_from i xs x = -1 \<longleftrightarrow> x \<notin> set xs"
  by (induction xs arbitrary: i) auto

lemma indexOf_absent: "indexOf xs x = -1 \<longleftrightarrow> x \<notin> set xs"
  by (simp add: indexOf_def indexOf_from_absent)

text \<open>The values of two different abilities have no bit in common.\<close>

lemma super_general_disjoint: "super_value a AND general_value b = 0"
  by (cases a; cases b) simp_all

lemma super_disjoint: "a \<noteq> b \<Longrightarrow> super_value a AND super_value b = 0"
  by (cases a; cases b) simp_all

lemma general_disjoint: "a \<noteq> b \<Longrightarrow> general_value a AND general_value b = 0"
  by (cases a; cases b) simp_all

lemma values_disjoint: "a \<noteq> b \<Longrightarrow> ability_value a AND ability_value b = 0"
  by (cases a; cases b)
    (simp_all add: super_disjoint general_disjoint super_general_disjoint
      and.commute [of "general_value _" "super_value _"])

lemma or_and_zero: "(x::nat) AND z = 0 \<Longrightarrow> y AND z = 0 \<Longrightarrow> (x OR y) AND z = 0"
  by (auto simp add: bit_eq_iff bit_and_iff bit_or_iff)

lemma add_abilities_or:
  "distinct abilities \<Longrightarrow> \<forall>a \<in> set abilities. acc AND ability_value a = 0 \<Longrightarrow>
   add_abilities acc abilities = fold (\<lambda>ability m. m OR ability_value ability) abilities acc"
proof (induction abilities arbitrary: acc)
  case Nil
  then show ?case by simp
next
  case (Cons a rest)
  have step: "acc + ability_value a = acc OR ability_value a"
    using Cons.prems(2) by (simp add: disjunctive_add_eq_or)
  have "\<forall>b \<in> set rest. (acc OR ability_value a) AND ability_value b = 0"
  proof
    fix b assume b: "b \<in> set rest"
    with Cons.prems(1) have "a \<noteq> b" by auto
    then have "ability_value a AND ability_value b = 0" by (rule values_disjoint)
    moreover have "acc AND ability_value b = 0" using Cons.prems(2) b by simp
    ultimately show "(acc OR ability_value a) AND ability_value b = 0"
      by (rule or_and_zero [rotated])
  qed
  with Cons.prems(1) Cons.IH [of "acc OR ability_value a"] show ?case
    by (simp add: step)
qed

text \<open>
  On a list that names no ability twice, adding the values is the same as OR-ing them.
\<close>

lemma add_abilities_distinct:
  "distinct abilities \<Longrightarrow> add_abilities 0 abilities = or_abilities abilities"
  by (simp add: add_abilities_or or_abilities_def)

text \<open>
  Scenario D of the specification: the mask of \<open>CREATE_ASSET\<close> and \<open>UPDATE_ASSET\<close> is 144,
  and the membership test on 144 finds \<open>UPDATE_ASSET\<close> and does not find \<open>REVOKE_ASSET\<close>.
\<close>

lemma bitfield_scenario:
  "add_abilities 0 [General CREATE_ASSET, General UPDATE_ASSET] = 144 \<and>
   or_abilities [General CREATE_ASSET, General UPDATE_ASSET] = 144 \<and>
   hasAbility 144 (ability_value (General UPDATE_ASSET)) \<and>
   \<not> hasAbility 144 (ability_value (General REVOKE_ASSET))"
  by (simp add: hasAbility_def or_abilities_def)

text \<open>
  C9: the bitfield built from a list of abilities is the bitwise OR of their values. The
  code adds the values instead. On the list \<open>[CREATE_ASSET, CREATE_ASSET]\<close> the OR is 16,
  the bit of \<open>CREATE_ASSET\<close>; \<open>grantAbilities\<close> and \<open>getBitfieldFromAbilities\<close> compute 32,
  which is the bit of \<open>REVOKE_ASSET\<close>.
\<close>

theorem bitfield_duplicate_ability:
  "gr_bitAbilities (grantAbilities ledger account [General CREATE_ASSET, General CREATE_ASSET])
     = 32 \<and>
   getBitfieldFromAbilities toHexString [General CREATE_ASSET, General CREATE_ASSET]
     = toHexString 32 \<and>
   or_abilities [General CREATE_ASSET, General CREATE_ASSET] = 16 \<and>
   ability_value (General REVOKE_ASSET) = 32 \<and>
   \<not> hasAbility 32 (ability_value (General CREATE_ASSET))"
  by (simp add: grantAbilities_def getBitfieldFromAbilities_def or_abilities_def hasAbility_def)

section \<open>Revoking abilities\<close>

lemma odd_ability_value: "odd (ability_value a) \<longleftrightarrow> a = Super MANAGE_ABILITIES"
proof (cases a)
  case (Super x)
  then show ?thesis by (cases x) simp_all
next
  case (General x)
  then show ?thesis by (cases x) simp_all
qed

lemma odd_add_abilities:
  "distinct abilities \<Longrightarrow>
   odd (add_abilities acc abilities) \<longleftrightarrow> (odd acc \<noteq> (Super MANAGE_ABILITIES \<in> set abilities))"
proof (induction abilities arbitrary: acc)
  case Nil
  then show ?case by simp
next
  case (Cons a rest)
  from Cons.prems have nin: "a \<notin> set rest" and d: "distinct rest" by simp_all
  have ih: "odd (add_abilities (acc + ability_value a) rest) \<longleftrightarrow>
        (odd (acc + ability_value a) \<noteq> (Super MANAGE_ABILITIES \<in> set rest))"
    by (rule Cons.IH [OF d])
  have par: "odd (acc + ability_value a) \<longleftrightarrow> (odd acc \<noteq> (a = Super MANAGE_ABILITIES))"
    by (simp add: odd_ability_value [symmetric])
  show ?case
  proof (cases "a = Super MANAGE_ABILITIES")
    case True
    with nin have "Super MANAGE_ABILITIES \<notin> set rest" by simp
    with True ih par show ?thesis by simp
  next
    case False
    with ih par show ?thesis by auto
  qed
qed

text \<open>
  C8, as stated: \<open>allowSuperRevoke\<close> is true exactly when the bitmask revoked includes
  \<open>MANAGE_ABILITIES\<close> and the target account is the caller. The method never compares the
  target with the caller: revoking \<open>MANAGE_ABILITIES\<close> from another account passes
  \<open>true\<close> as well.
\<close>

theorem allowSuperRevoke_other_account_counterexample:
  "rv_allowSuperRevoke
     (revokeAbilities (stub_ledger ''0xaa'') (AccountString ''0xbb'') [Super MANAGE_ABILITIES]) \<and>
   hasAbility
     (rv_bitAbilities
       (revokeAbilities (stub_ledger ''0xaa'') (AccountString ''0xbb'') [Super MANAGE_ABILITIES]))
     (ability_value (Super MANAGE_ABILITIES)) \<and>
   rv_accountId
     (revokeAbilities (stub_ledger ''0xaa'') (AccountString ''0xbb'') [Super MANAGE_ABILITIES])
     \<noteq> Some (accountId (provider (stub_ledger ''0xaa'')))"
  by (simp add: revokeAbilities_def stub_ledger_def indexOf_def hasAbility_def)

text \<open>
  C8, amended: \<open>allowSuperRevoke\<close> is true exactly when the list of abilities to revoke
  contains \<open>MANAGE_ABILITIES\<close>, whoever the target and the caller are; for a list that
  names no ability twice this is exactly when the bitmask revoked includes
  \<open>MANAGE_ABILITIES\<close>.
\<close>

theorem allowSuperRevoke_iff_listed:
  "(rv_allowSuperRevoke (revokeAbilities ledger account abilities) \<longleftrightarrow>
      Super MANAGE_ABILITIES \<in> set abilities) \<and>
   (distinct abilities \<longrightarrow>
      (rv_allowSuperRevoke (revokeAbilities ledger account abilities) \<longleftrightarrow>
       hasAbility (rv_bitAbilities (revokeAbilities ledger account abilities))
         (ability_value (Super MANAGE_ABILITIES))))"
proof (intro conjI impI)
  show flag: "rv_allowSuperRevoke (revokeAbilities ledger account abilities) \<longleftrightarrow>
      Super MANAGE_ABILITIES \<in> set abilities"
    by (simp add: revokeAbilities_def Let_def indexOf_absent)
  assume d: "distinct abilities"
  have "hasAbility (add_abilities 0 abilities) 1 \<longleftrightarrow> odd (add_abilities 0 abilities)"
    by (simp add: hasAbility_def and_one_eq mod_2_eq_odd)
  with d show "rv_allowSuperRevoke (revokeAbilities ledger account abilities) \<longleftrightarrow>
       hasAbility (rv_bitAbilities (revokeAbilities ledger account abilities))
         (ability_value (Super MANAGE_ABILITIES))"
    by (simp add: revokeAbilities_def Let_def indexOf_absent odd_add_abilities)
qed

text \<open>
  The amended C8 on a test ledger: account \<open>0xaa\<close> revokes \<open>MANAGE_ABILITIES\<close> and
  \<open>CREATE_ASSET\<close> from account \<open>0xbb\<close>, and revokes \<open>CREATE_ASSET\<close> alone.
\<close>

theorem allowSuperRevoke_iff_listed_witness:
  "distinct [Super MANAGE_ABILITIES, General CREATE_ASSET] \<and>
   rv_allowSuperRevoke (revokeAbilities (stub_ledger ''0xaa'') (AccountString ''0xbb'')
     [Super MANAGE_ABILITIES, General CREATE_ASSET]) \<and>
   hasAbility (rv_bitAbilities (revokeAbilities (stub_ledger ''0xaa'') (AccountString ''0xbb'')
     [Super MANAGE_ABILITIES, General CREATE_ASSET])) (ability_value (Super MANAGE_ABILITIES)) \<and>
   \<not> rv_allowSuperRevoke (revokeAbilities (stub_ledger ''0xaa'') (AccountString ''0xbb'')
     [General CREATE_ASSET])"
proof -
  have d: "distinct [Super MANAGE_ABILITIES, General CREATE_ASSET]" by simp
  from allowSuperRevoke_iff_listed [where ledger="stub_ledger ''0xaa''"
      and account="AccountString ''0xbb''"
      and abilities="[Super MANAGE_ABILITIES, General CREATE_ASSET]"] d
  have a: "rv_allowSuperRevoke (revokeAbilities (stub_ledger ''0xaa'') (AccountString ''0xbb'')
     [Super MANAGE_ABILITIES, General CREATE_ASSET]) \<and>
   hasAbility (rv_bitAbilities (revokeAbilities (stub_ledger ''0xaa'') (AccountString ''0xbb'')
     [Super MANAGE_ABILITIES, General CREATE_ASSET])) (ability_value (Super MANAGE_ABILITIES))"
    by auto
  from allowSuperRevoke_iff_listed [where ledger="stub_ledger ''0xaa''"
      and account="AccountString ''0xbb''" and abilities="[General CREATE_ASSET]"]
  have b: "\<not> rv_allowSuperRevoke (revokeAbilities (stub_ledger ''0xaa'') (AccountString ''0xbb'')
     [General CREATE_ASSET])"
    by simp
  from d a b show ?thesis by blast
qed

section \<open>Creating an asset\<close>

text \<open>
  C10: when the recipe has no imprint, \<open>createAsset\<close> passes the fixed digest
  \<open>e3b0c442\<dots>7852b855\<close> (with the \<open>0x\<close> prefix) as the imprint; it does the same when the
  imprint is the empty string, so the imprint passed on is never empty; a non-empty
  imprint of the recipe is passed on as it is.
\<close>

theorem createAsset_imprint:
  "(recipe_imprint recipe = None \<longrightarrow>
      ca_imprint (createAsset ledger recipe) = ''0x'' @ default_imprint) \<and>
   (recipe_imprint recipe = Some [] \<longrightarrow>
      ca_imprint (createAsset ledger recipe) = ''0x'' @ default_imprint) \<and>
   (recipe_imprint recipe = Some s \<and> s \<noteq> [] \<longrightarrow>
      ca_imprint (createAsset ledger recipe) = ''0x'' @ s) \<and>
   ca_imprint (createAsset ledger recipe) \<noteq> ''0x'' \<and>
   default_imprint = ''e3b0c44298fc1c149afbf4c8996fb92427ae41e4649b934ca495991b7852b855'' \<and>
   length default_imprint = 64"
  by (cases "recipe_imprint recipe") (auto simp add: createAsset_def Let_def default_imprint_def)

text \<open>
  C10 on a test ledger: a recipe without imprint, a recipe whose imprint is the empty
  string, and a recipe with the imprint \<open>ab\<close>.
\<close>

theorem createAsset_imprint_witness:
  "ca_imprint (createAsset (stub_ledger ''0xaa'')
     \<lparr>recipe_receiverId = Some ''0xbb'', recipe_imprint = None, recipe_id = ''7''\<rparr>) =
     ''0xe3b0c44298fc1c149afbf4c8996fb92427ae41e4649b934ca495991b7852b855'' \<and>
   ca_imprint (createAsset (stub_ledger ''0xaa'')
     \<lparr>recipe_receiverId = Some ''0xbb'', recipe_imprint = Some [], recipe_id = ''7''\<rparr>) =
     ''0xe3b0c44298fc1c149afbf4c8996fb92427ae41e4649b934ca495991b7852b855'' \<and>
   ca_imprint (createAsset (stub_ledger ''0xaa'')
     \<lparr>recipe_receiverId = Some ''0xbb'', recipe_imprint = Some ''ab'', recipe_id = ''7''\<rparr>) =
     ''0xab''"
proof -
  from createAsset_imprint [where ledger="stub_ledger ''0xaa''"
      and recipe="\<lparr>recipe_receiverId = Some ''0xbb'', recipe_imprint = None, recipe_id = ''7''\<rparr>"]
  have a: "ca_imprint (createAsset (stub_ledger ''0xaa'')
     \<lparr>recipe_receiverId = Some ''0xbb'', recipe_imprint = None, recipe_id = ''7''\<rparr>) =
     ''0xe3b0c44298fc1c149afbf4c8996fb92427ae41e4649b934ca495991b7852b855''"
    by simp
  from createAsset_imprint [where ledger="stub_ledger ''0xaa''"
      and recipe="\<lparr>recipe_receiverId = Some ''0xbb'', recipe_imprint = Some [], recipe_id = ''7''\<rparr>"]
  have b: "ca_imprint (createAsset (stub_ledger ''0xaa'')
     \<lparr>recipe_receiverId = Some ''0xbb'', recipe_imprint = Some [], recipe_id = ''7''\<rparr>) =
     ''0xe3b0c44298fc1c149afbf4c8996fb92427ae41e4649b934ca495991b7852b855''"
    by simp
  from createAsset_imprint [where ledger="stub_ledger ''0xaa''" and s="''ab''"
      and recipe="\<lparr>recipe_receiverId = Some ''0xbb'', recipe_imprint = Some ''ab'', recipe_id = ''7''\<rparr>"]
  have c: "ca_imprint (createAsset (stub_ledger ''0xaa'')
     \<lparr>recipe_receiverId = Some ''0xbb'', recipe_imprint = Some ''ab'', recipe_id = ''7''\<rparr>) =
     ''0xab''"
    by simp
  from a b c show ?thesis by blast
qed

end
